theory Spec2Isabelle
  imports Main
begin

section \<open>The image viewer of datasets/utils/glviewer.py\<close>

text \<open>
  The viewer is a Python 2 module: a module-level dictionary \<open>_commands\<close> from
  one-character strings to handlers, four built-in handlers, and \<open>glumpy_viewer\<close>, which
  builds the state dictionary and the two callbacks \<open>on_draw\<close> and \<open>on_key_press\<close>.
  Handlers mutate the state dictionary in place; here a handler takes the state and
  returns how it completed together with the state it left behind.
\<close>

subsection \<open>Exceptions and completions\<close>

datatype exn = AssertionError | TypeError | ValueError | IndexError | ZeroDivisionError

text \<open>
  A call returns, leaves through \<open>sys.exit()\<close> (the exception SystemExit), or raises.
\<close>

datatype completion = Returned | SystemExit | Raised exn

subsection \<open>The state dictionary\<close>

text \<open>
  The keys \<open>'pos'\<close>, \<open>'window'\<close>, \<open>'I'\<close> and \<open>'len'\<close> of the module docstring.
  The window is kept as the shape it was created with; \<open>'len'\<close> is \<open>None\<close> when the
  image column has no length.
\<close>

record 'img state =
  window :: "int \<times> int"
  pos :: int
  I :: 'img
  len :: "int option"

type_synonym 'img handler = "'img state \<Rightarrow> completion \<times> 'img state"

type_synonym 'img commands = "string \<rightharpoonup> 'img handler"

subsection \<open>Registration\<close>

text \<open>
  The argument of \<open>command\<close> is any Python object; the assertion inspects its type and
  its length.
\<close>

datatype pyobj = PyStr string | PyUnicode string | PyInt int | PyNone

text \<open>
  \<open>command(char)\<close> returns the decorator \<open>deco\<close>; \<open>deco(f)\<close> asserts, stores and
  returns \<open>f\<close>. The dictionary is threaded through: \<open>command char f cmds\<close> is the call
  \<open>command(char)(f)\<close> made when \<open>_commands\<close> holds \<open>cmds\<close>.
\<close>

fun command :: "pyobj \<Rightarrow> 'img handler \<Rightarrow> 'img commands \<Rightarrow> completion \<times> 'img commands" where
  "command (PyStr char) f cmds =
     (if length char = 1 then (Returned, cmds(char \<mapsto> f)) else (Raised AssertionError, cmds))"
| "command other f cmds = (Raised AssertionError, cmds)"

subsection \<open>The built-in handlers\<close>

text \<open>
  Python's \<open>%\<close> on integers is floored, as \<open>mod\<close> on \<open>int\<close> is; it raises
  ZeroDivisionError for a zero modulus and TypeError when the modulus is \<open>None\<close>.
  The assignment to \<open>state['pos']\<close> happens only when the right-hand side evaluated.
\<close>

definition inc_pos :: "'img handler" where
  "inc_pos state =
     (case len state of
        None \<Rightarrow> (Raised TypeError, state)
      | Some n \<Rightarrow>
          if n = 0 then (Raised ZeroDivisionError, state)
          else (Returned, state\<lparr>pos := (pos state + 1) mod n\<rparr>))"

definition dec_pos :: "'img handler" where
  "dec_pos state =
     (case len state of
        None \<Rightarrow> (Raised TypeError, state)
      | Some n \<Rightarrow>
          if n = 0 then (Raised ZeroDivisionError, state)
          else (Returned, state\<lparr>pos := (pos state - 1) mod n\<rparr>))"

definition reset_pos :: "'img handler" where
  "reset_pos state = (Returned, state\<lparr>pos := 0\<rparr>)"

definition quit :: "'img handler" where
  "quit state = (SystemExit, state)"

text \<open>
  \<open>_commands\<close> once the module body has run: the empty dictionary after the four
  decorated definitions, in the order of the file.
\<close>

definition module_commands :: "'img commands" where
  "module_commands =
     snd (command (PyStr ''q'') quit
       (snd (command (PyStr ''0'') reset_pos
         (snd (command (PyStr ''k'') dec_pos
           (snd (command (PyStr ''j'') inc_pos Map.empty)))))))"

subsection \<open>The image column and the arrays to print\<close>

text \<open>
  \<open>img_array\<close> is any array-like object. A list or an ndarray has a length and is
  indexed as Python indexes sequences (a negative index counts from the end, anything
  outside raises IndexError); an object with \<open>__getitem__\<close> alone has no length, and
  \<open>len\<close> raises TypeError on it.
\<close>

datatype 'f img_array = Sized "'f list" | Unsized "int \<Rightarrow> 'f option"

definition getitem_list :: "'x list \<Rightarrow> int \<Rightarrow> exn + 'x" where
  "getitem_list xs i =
     (if 0 \<le> i \<and> i < int (length xs) then Inr (xs ! nat i)
      else if i < 0 \<and> - int (length xs) \<le> i then Inr (xs ! nat (int (length xs) + i))
      else Inl IndexError)"

fun getitem :: "'f img_array \<Rightarrow> int \<Rightarrow> exn + 'f" where
  "getitem (Sized xs) i = getitem_list xs i"
| "getitem (Unsized g) i = (case g i of None \<Rightarrow> Inl IndexError | Some x \<Rightarrow> Inr x)"

fun len_py :: "'f img_array \<Rightarrow> exn + int" where
  "len_py (Sized xs) = Inr (int (length xs))"
| "len_py (Unsized g) = Inl TypeError"

text \<open>
  The list comprehension \<open>[o[i] for o in arrays_to_print]\<close>: the first lookup that
  raises ends it.
\<close>

fun getitems :: "'a list list \<Rightarrow> int \<Rightarrow> exn + 'a list" where
  "getitems [] i = Inr []"
| "getitems (o1 # os) i =
     (case getitem_list o1 i of
        Inl e \<Rightarrow> Inl e
      | Inr v \<Rightarrow> (case getitems os i of Inl e \<Rightarrow> Inl e | Inr vs \<Rightarrow> Inr (v # vs)))"

subsection \<open>The callbacks\<close>

text \<open>
  \<open>glumpy.Image(frame, cmap=cmap)\<close> is kept as the pair it is built from.
\<close>

datatype ('f, 'c) image = Image 'f 'c

text \<open>
  What the callbacks write and draw, in order. The statement
  \<open>print state['pos'], [...]\<close> writes the position before it evaluates the list.
\<close>

datatype ('f, 'c, 'a) effect =
    Print_unused string int
  | Print_pos int
  | Print_aux "'a list"
  | Clear
  | Blit "('f, 'c) image" "int \<times> int"

text \<open>
  Python 2's \<open>chr\<close>: the one-character string of a code in \<open>range(256)\<close>, ValueError
  for any other integer.
\<close>

definition chr :: "int \<Rightarrow> exn + string" where
  "chr i = (if 0 \<le> i \<and> i < 256 then Inr [char_of i] else Inl ValueError)"

definition on_draw ::
  "int \<times> int \<Rightarrow> ('f, 'c) image state \<Rightarrow> ('f, 'c, 'a) effect list" where
  "on_draw win state = [Clear, Blit (I state) win]"

definition on_key_press ::
  "'f img_array \<Rightarrow> 'a list list \<Rightarrow> ('f, 'c) image commands \<Rightarrow> 'c \<Rightarrow> int \<times> int \<Rightarrow>
   int \<Rightarrow> int \<Rightarrow> ('f, 'c) image state \<Rightarrow>
   completion \<times> ('f, 'c) image state \<times> ('f, 'c, 'a) effect list" where
  "on_key_press img_array arrays_to_print commands cmap win symbol modifiers state =
     (case chr symbol of
        Inl e \<Rightarrow> (Raised e, state, [])
      | Inr c \<Rightarrow>
         (case commands c of
            None \<Rightarrow> (Returned, state, [Print_unused c modifiers])
          | Some f \<Rightarrow>
             (case f state of
                (Returned, state') \<Rightarrow>
                  if pos state = pos state' then (Returned, state', [])
                  else
                    (case getitem img_array (pos state') of
                       Inl e \<Rightarrow> (Raised e, state', [])
                     | Inr img_i \<Rightarrow>
                        (let state'' = state'\<lparr>I := Image img_i cmap\<rparr> in
                         case getitems arrays_to_print (pos state'') of
                           Inl e \<Rightarrow> (Raised e, state'', [Print_pos (pos state'')])
                         | Inr vs \<Rightarrow>
                            (Returned, state'',
                             [Print_pos (pos state''), Print_aux vs] @ on_draw win state'')))
              | (c, state') \<Rightarrow> (c, state', []))))"

subsection \<open>The session\<close>

text \<open>
  Lines 99 and 100: the table the callbacks use is the caller's, or the module's when
  the caller passed \<open>None\<close>. The assignment binds the module's dictionary itself, so the
  first argument is \<open>_commands\<close> as it is when the key is pressed.
\<close>

definition active_commands :: "'h commands \<Rightarrow> 'h commands option \<Rightarrow> 'h commands" where
  "active_commands cmds_module commands =
     (case commands of None \<Rightarrow> cmds_module | Some c \<Rightarrow> c)"

text \<open>
  Lines 86 to 96: the length, or \<open>None\<close> on TypeError, and the state dictionary.
  \<open>img_array[0]\<close> is evaluated while the dictionary is built.
\<close>

definition initial_state ::
  "'f img_array \<Rightarrow> 'c \<Rightarrow> int \<times> int \<Rightarrow> exn + ('f, 'c) image state" where
  "initial_state img_array cmap window_shape =
     (case (case len_py img_array of
              Inr n \<Rightarrow> Inr (Some n)
            | Inl e \<Rightarrow> if e = TypeError then Inr None else Inl e) of
        Inl e \<Rightarrow> Inl e
      | Inr n_imgs \<Rightarrow>
         (case getitem img_array 0 of
            Inl e \<Rightarrow> Inl e
          | Inr img_0 \<Rightarrow>
              Inr \<lparr>window = window_shape, pos = 0, I = Image img_0 cmap, len = n_imgs\<rparr>))"

text \<open>
  Modelled from the spec: \<open>window.mainloop()\<close> belongs to glumpy and is not part of the
  repository. The spec's Render Target calls the key-press callback once for each
  event, one after the other, while the loop is Running, and an exit or an exception
  leaving a callback ends the loop.
\<close>

datatype status = Running | Terminated completion

fun mainloop ::
  "(int \<Rightarrow> int \<Rightarrow> 's \<Rightarrow> completion \<times> 's \<times> 'o list) \<Rightarrow> (int \<times> int) list \<Rightarrow> 's \<Rightarrow>
   status \<times> 's \<times> 'o list" where
  "mainloop key_press [] state = (Running, state, [])"
| "mainloop key_press ((symbol, modifiers) # events) state =
     (case key_press symbol modifiers state of
        (Returned, state', out) \<Rightarrow>
          (case mainloop key_press events state' of
             (st, state'', out') \<Rightarrow> (st, state'', out @ out'))
      | (c, state', out) \<Rightarrow> (Terminated c, state', out))"

text \<open>
  \<open>glumpy_viewer\<close> on a given run of key presses, with \<open>_commands\<close> as the module left it.
\<close>

definition glumpy_viewer ::
  "'f img_array \<Rightarrow> 'a list list \<Rightarrow> ('f, 'c) image commands option \<Rightarrow> 'c \<Rightarrow> int \<times> int \<Rightarrow>
   (int \<times> int) list \<Rightarrow>
   exn + status \<times> ('f, 'c) image state \<times> ('f, 'c, 'a) effect list" where
  "glumpy_viewer img_array arrays_to_print commands cmap window_shape events =
     (case initial_state img_array cmap window_shape of
        Inl e \<Rightarrow> Inl e
      | Inr state \<Rightarrow>
          Inr (mainloop
                (on_key_press img_array arrays_to_print
                   (active_commands module_commands commands) cmap window_shape)
                events state))"

subsection \<open>The merge the specification describes\<close>

text \<open>
  This table is not in the source. It follows the specification's words for a caller who
  supplies \<open>commands\<close>: the default set with the caller's entries layered on top,
  trigger by trigger. It is here to be compared with \<open>active_commands\<close>.
\<close>

definition spec_merged_commands :: "'h commands \<Rightarrow> 'h commands \<Rightarrow> 'h commands" where
  "spec_merged_commands defaults overrides = defaults ++ overrides"

section \<open>Auxiliary facts\<close>

lemma chr_j: "chr 106 = Inr ''j''"
  by code_simp

lemma chr_k: "chr 107 = Inr ''k''"
  by code_simp

lemma chr_0: "chr 48 = Inr ''0''"
  by code_simp

lemma chr_q: "chr 113 = Inr ''q''"
  by code_simp

lemma module_commands_eq:
  "module_commands =
     [''j'' \<mapsto> inc_pos, ''k'' \<mapsto> dec_pos, ''0'' \<mapsto> reset_pos, ''q'' \<mapsto> quit]"
  by (simp add: module_commands_def)

lemma module_commands_j: "module_commands ''j'' = Some inc_pos"
  by (simp add: module_commands_eq)

lemma module_commands_k: "module_commands ''k'' = Some dec_pos"
  by (simp add: module_commands_eq)

lemma module_commands_q: "module_commands ''q'' = Some quit"
  by (simp add: module_commands_eq)

lemma getitem_list_in_range:
  "0 \<le> i \<Longrightarrow> i < int (length xs) \<Longrightarrow> getitem_list xs i = Inr (xs ! nat i)"
  by (simp add: getitem_list_def)

lemma getitems_in_range:
  "0 \<le> i \<Longrightarrow> \<forall>a \<in> set arrays. i < int (length a) \<Longrightarrow>
   getitems arrays i = Inr (map (\<lambda>a. a ! nat i) arrays)"
  by (induction arrays) (simp_all add: getitem_list_in_range)

lemma inc_pos_Some:
  "len s = Some n \<Longrightarrow> n \<noteq> 0 \<Longrightarrow> inc_pos s = (Returned, s\<lparr>pos := (pos s + 1) mod n\<rparr>)"
  by (simp add: inc_pos_def)

lemma dec_pos_Some:
  "len s = Some n \<Longrightarrow> n \<noteq> 0 \<Longrightarrow> dec_pos s = (Returned, s\<lparr>pos := (pos s - 1) mod n\<rparr>)"
  by (simp add: dec_pos_def)

lemma inc_dec_mod: "0 \<le> p \<Longrightarrow> p < n \<Longrightarrow> ((p + 1) mod n - 1) mod n = (p::int)"
  by (metis add_diff_cancel_right' mod_diff_left_eq mod_pos_pos_trivial)

lemma dec_inc_mod: "0 \<le> p \<Longrightarrow> p < n \<Longrightarrow> ((p - 1) mod n + 1) mod n = (p::int)"
  by (metis diff_add_cancel mod_add_left_eq mod_pos_pos_trivial)

lemma on_key_press_returned:
  assumes "chr symbol = Inr c" and "commands c = Some f" and "f s = (Returned, s')"
    and "0 \<le> pos s'" and "pos s' < int (length frames)"
    and "\<forall>a \<in> set arrays. pos s' < int (length a)"
  shows "on_key_press (Sized frames) arrays commands cmap win symbol modifiers s =
           (if pos s = pos s' then (Returned, s', [])
            else (Returned, s'\<lparr>I := Image (frames ! nat (pos s')) cmap\<rparr>,
                  [Print_pos (pos s'), Print_aux (map (\<lambda>a. a ! nat (pos s')) arrays),
                   Clear, Blit (Image (frames ! nat (pos s')) cmap) win]))"
  using assms
  by (simp add: on_key_press_def on_draw_def getitem_list_in_range getitems_in_range)

lemma on_key_press_pos:
  assumes "chr symbol = Inr c" and "commands c = Some f" and "f s = (Returned, s')"
    and "on_key_press img_array arrays commands cmap win symbol modifiers s = (cp, s'', out)"
  shows "pos s'' = pos s' \<and> len s'' = len s'"
  using assms
  by (auto simp add: on_key_press_def Let_def split: sum.splits if_splits)

lemma mainloop_invariant:
  assumes step: "\<And>key m s c s' out. K key \<Longrightarrow> P s \<Longrightarrow> kp key m s = (c, s', out) \<Longrightarrow> P s'"
    and "\<forall>e \<in> set events. K (fst e)"
    and "P s" and "mainloop kp events s = (st, s', out)"
  shows "P s'"
  using assms(2-)
proof (induction events arbitrary: s st s' out)
  case Nil
  then show ?case by simp
next
  case (Cons e events)
  obtain key m where e: "e = (key, m)" by (cases e)
  obtain c s1 out1 where k: "kp key m s = (c, s1, out1)" by (cases "kp key m s")
  have P1: "P s1" using step[of key s m c s1 out1] Cons.prems k e by simp
  show ?case
  proof (cases "c = Returned")
    case True
    obtain st2 s2 out2 where r: "mainloop kp events s1 = (st2, s2, out2)"
      by (cases "mainloop kp events s1")
    have "s' = s2" using Cons.prems(3) e k True r by simp
    moreover have "P s2"
      using Cons.IH[OF _ P1 r] Cons.prems(1) by simp
    ultimately show ?thesis by simp
  next
    case False
    then have "s' = s1" using Cons.prems(3) e k by (cases c) simp_all
    then show ?thesis using P1 by simp
  qed
qed

lemma mainloop_running:
  assumes step: "\<And>key m s. K key \<Longrightarrow> P s \<Longrightarrow> \<exists>s' out. kp key m s = (Returned, s', out) \<and> P s'"
    and "\<forall>e \<in> set events. K (fst e)"
    and "P s"
  shows "fst (mainloop kp events s) = Running"
  using assms(2-)
proof (induction events arbitrary: s)
  case Nil
  then show ?case by simp
next
  case (Cons e events)
  obtain key m where e: "e = (key, m)" by (cases e)
  obtain s1 out1 where k: "kp key m s = (Returned, s1, out1)" and P1: "P s1"
    using step[of key s m] Cons.prems e by auto
  have "fst (mainloop kp events s1) = Running"
    using Cons.IH[OF _ P1] Cons.prems(1) by simp
  then show ?case using e k by (cases "mainloop kp events s1") simp
qed

lemma jk_handler:
  assumes "key = 106 \<or> key = 107" and "len s = Some n" and "0 \<le> pos s" and "pos s < n"
  shows "\<exists>c f s'. chr key = Inr c \<and> module_commands c = Some f \<and> f s = (Returned, s')
           \<and> len s' = Some n \<and> 0 \<le> pos s' \<and> pos s' < n"
proof -
  have n: "n \<noteq> 0" "0 < n" using assms by auto
  from assms(1) show ?thesis
  proof
    assume "key = 106"
    then show ?thesis
      using assms(2) n(2)
      by (auto simp add: chr_j module_commands_j inc_pos_Some[OF assms(2) n(1)])
  next
    assume "key = 107"
    then show ?thesis
      using assms(2) n(2)
      by (auto simp add: chr_k module_commands_k dec_pos_Some[OF assms(2) n(1)])
  qed
qed

lemma key_press_jk_step:
  assumes "key = 106 \<or> key = 107"
    and "len s = Some n \<and> 0 \<le> pos s \<and> pos s < n"
    and "on_key_press img_array arrays module_commands cmap win key m s = (c, s', out)"
  shows "len s' = Some n \<and> 0 \<le> pos s' \<and> pos s' < n"
proof -
  obtain k f s1 where h: "chr key = Inr k" "module_commands k = Some f" "f s = (Returned, s1)"
    "len s1 = Some n" "0 \<le> pos s1" "pos s1 < n"
    using jk_handler[OF assms(1), of s n] assms(2) by blast
  show ?thesis using on_key_press_pos[OF h(1,2,3) assms(3)] h(4,5,6) by simp
qed

lemma key_press_jk_returned:
  assumes "key = 106 \<or> key = 107"
    and "len s = Some (int (length frames)) \<and> 0 \<le> pos s \<and> pos s < int (length frames)"
    and "\<forall>a \<in> set arrays. length a = length frames"
  shows "\<exists>s' out. on_key_press (Sized frames) arrays module_commands cmap win key m s
                     = (Returned, s', out)
           \<and> (len s' = Some (int (length frames)) \<and> 0 \<le> pos s' \<and> pos s' < int (length frames))"
proof -
  obtain k f s1 where h: "chr key = Inr k" "module_commands k = Some f" "f s = (Returned, s1)"
    "len s1 = Some (int (length frames))" "0 \<le> pos s1" "pos s1 < int (length frames)"
    using jk_handler[OF assms(1), of s "int (length frames)"] assms(2) by blast
  have a: "\<forall>a \<in> set arrays. pos s1 < int (length a)" using assms(3) h(6) by simp
  show ?thesis
    using on_key_press_returned[where symbol = key and c = k and commands = module_commands
        and f = f and s = s and s' = s1 and frames = frames and arrays = arrays
        and cmap = cmap and win = win and modifiers = m] h a
    by (cases "pos s = pos s1") simp_all
qed

lemma initial_state_Sized:
  "frames \<noteq> [] \<Longrightarrow>
   initial_state (Sized frames) cmap shape =
     Inr \<lparr>window = shape, pos = 0, I = Image (frames ! 0) cmap, len = Some (int (length frames))\<rparr>"
  by (simp add: initial_state_def getitem_list_def)

lemma on_key_press_unused:
  assumes "chr symbol = Inr c" and "commands c = None"
  shows "on_key_press img_array arrays commands cmap win symbol modifiers s
           = (Returned, s, [Print_unused c modifiers])"
  using assms by (simp add: on_key_press_def)

lemma mainloop_append:
  "mainloop kp (xs @ ys) s =
     (case mainloop kp xs s of
        (Running, s1, out1) \<Rightarrow>
          (case mainloop kp ys s1 of (st, s2, out2) \<Rightarrow> (st, s2, out1 @ out2))
      | r \<Rightarrow> r)"
proof (induction xs arbitrary: s)
  case Nil
  then show ?case by (simp split: prod.splits)
next
  case (Cons e xs)
  obtain key m where e: "e = (key, m)" by (cases e)
  obtain c s1 out1 where k: "kp key m s = (c, s1, out1)" by (cases "kp key m s")
  show ?case
  proof (cases c)
    case Returned
    then show ?thesis using e k Cons.IH[of s1]
      by (simp split: prod.splits status.splits)
  next
    case SystemExit
    then show ?thesis using e k by simp
  next
    case (Raised x)
    then show ?thesis using e k by simp
  qed
qed

lemma single_frame_mainloop:
  assumes "len s = Some 1" and "pos s = 0"
    and "\<forall>e \<in> set events. fst e = 106 \<or> fst e = 107"
  shows "mainloop (on_key_press img_array arrays module_commands cmap win) events s
           = (Running, s, [])"
proof -
  have i: "inc_pos s = (Returned, s)" using assms(1,2) by (simp add: inc_pos_def)
  have d: "dec_pos s = (Returned, s)" using assms(1,2) by (simp add: dec_pos_def)
  have j: "on_key_press img_array arrays module_commands cmap win 106 m s = (Returned, s, [])" for m
    by (simp add: on_key_press_def chr_j module_commands_j i)
  have k: "on_key_press img_array arrays module_commands cmap win 107 m s = (Returned, s, [])" for m
    by (simp add: on_key_press_def chr_k module_commands_k d)
  show ?thesis
    using assms(3)
  proof (induction events)
    case Nil
    then show ?case by simp
  next
    case (Cons e events)
    obtain key m where e: "e = (key, m)" by (cases e)
    then have "key = 106 \<or> key = 107" using Cons.prems by simp
    then show ?case using Cons e j k by auto
  qed
qed

section \<open>The claims\<close>

text \<open>
  C1. A session on a column of \<open>n \<ge> 1\<close> frames starts at position 0. After every
  prefix of a run of \<open>j\<close> (advance) and \<open>k\<close> (rewind) key presses the position
  satisfies \<open>0 \<le> pos < n\<close> (and the loop is still running when the arrays to print are
  as long as the column). The range is kept by wrapping, not by clamping: advancing from
  \<open>n - 1\<close> gives 0 and rewinding from 0 gives \<open>n - 1\<close>.
\<close>

theorem position_in_range:
  assumes "frames \<noteq> []" and "\<forall>e \<in> set events. fst e = 106 \<or> fst e = 107"
  shows "(\<exists>st s out.
            glumpy_viewer (Sized frames) arrays None cmap shape (take i events) = Inr (st, s, out)
          \<and> len s = Some (int (length frames)) \<and> 0 \<le> pos s \<and> pos s < int (length frames)
          \<and> ((\<forall>a \<in> set arrays. length a = length frames) \<longrightarrow> st = Running))
       \<and> pos (snd (inc_pos \<lparr>window = shape, pos = int (length frames) - 1, I = img,
                              len = Some (int (length frames))\<rparr>)) = 0
       \<and> pos (snd (dec_pos \<lparr>window = shape, pos = 0, I = img,
                              len = Some (int (length frames))\<rparr>)) = int (length frames) - 1"
proof -
  let ?n = "int (length frames)"
  let ?s0 = "\<lparr>window = shape, pos = 0, I = Image (frames ! 0) cmap, len = Some ?n\<rparr>"
  let ?kp = "on_key_press (Sized frames) arrays module_commands cmap shape"
  let ?P = "\<lambda>s. len s = Some ?n \<and> 0 \<le> pos s \<and> pos s < ?n"
  let ?K = "\<lambda>key::int. key = 106 \<or> key = 107"
  have n: "0 < ?n" using assms(1) by simp
  have ev: "\<forall>e \<in> set (take i events). ?K (fst e)"
    using assms(2) by (meson in_set_takeD)
  have P0: "?P ?s0" using n by simp
  obtain st s out where r: "mainloop ?kp (take i events) ?s0 = (st, s, out)"
    by (cases "mainloop ?kp (take i events) ?s0")
  have inv: "?P s"
    by (rule mainloop_invariant[where P = ?P and K = ?K, OF _ ev P0 r])
       (rule key_press_jk_step, assumption+)
  have run: "st = Running" if par: "\<forall>a \<in> set arrays. length a = length frames"
  proof -
    have "fst (mainloop ?kp (take i events) ?s0) = Running"
      by (rule mainloop_running[where P = ?P and K = ?K, OF _ ev P0])
         (rule key_press_jk_returned[OF _ _ par], assumption+)
    then show ?thesis using r by simp
  qed
  have g: "glumpy_viewer (Sized frames) arrays None cmap shape (take i events) = Inr (st, s, out)"
    using r assms(1) by (simp add: glumpy_viewer_def initial_state_Sized active_commands_def)
  have w1: "pos (snd (inc_pos \<lparr>window = shape, pos = ?n - 1, I = img, len = Some ?n\<rparr>)) = 0"
    using n by (simp add: inc_pos_def)
  have w2: "pos (snd (dec_pos \<lparr>window = shape, pos = 0, I = img, len = Some ?n\<rparr>)) = ?n - 1"
    using n by (simp add: dec_pos_def zmod_minus1)
  show ?thesis using g inv run w1 w2 by blast
qed

theorem position_in_range_witness:
  "[10, 20, 30::nat] \<noteq> []
   \<and> (\<exists>st s out.
        glumpy_viewer (Sized [10, 20, 30::nat]) [[1, 2, 3::nat]] None (0::nat) (512, 512)
          (take 3 [(106, 0), (106, 0), (106, 0), (107, 0)]) = Inr (st, s, out)
        \<and> len s = Some 3 \<and> 0 \<le> pos s \<and> pos s < 3 \<and> st = Running)
   \<and> pos (snd (inc_pos \<lparr>window = (512, 512), pos = 2, I = Image (10::nat) (0::nat), len = Some 3\<rparr>)) = 0
   \<and> pos (snd (dec_pos \<lparr>window = (512, 512), pos = 0, I = Image (10::nat) (0::nat), len = Some 3\<rparr>)) = 2"
  using position_in_range [where frames = "[10, 20, 30::nat]"
      and events = "[(106, 0), (106, 0), (106, 0), (107, 0)]"
      and arrays = "[[1, 2, 3::nat]]" and i = 3 and cmap = "0::nat" and shape = "(512, 512)"
      and img = "Image (10::nat) (0::nat)"]
  by simp

text \<open>
  C2. A key press whose character is in the table and whose handler returns: when the
  handler left \<open>pos\<close> as it was, \<open>on_key_press\<close> returns the handler's state as it is,
  writes nothing and draws nothing; when the handler changed \<open>pos\<close> (to an index of the
  column, the arrays to print being as long as the column), \<open>I\<close> becomes the image of
  the frame at the new position, the position and the arrays' values there are printed,
  and the window is drawn with that image.
\<close>

theorem redraw_iff_position_changed:
  assumes "chr symbol = Inr c" and "commands c = Some f" and "f state = (Returned, state')"
  shows "(pos state' = pos state \<longrightarrow>
            on_key_press img_array arrays commands cmap win symbol modifiers state
              = (Returned, state', []))
       \<and> (pos state' \<noteq> pos state \<and> img_array = Sized frames
            \<and> 0 \<le> pos state' \<and> pos state' < int (length frames)
            \<and> (\<forall>a \<in> set arrays. length a = length frames) \<longrightarrow>
            on_key_press img_array arrays commands cmap win symbol modifiers state
              = (Returned, state'\<lparr>I := Image (frames ! nat (pos state')) cmap\<rparr>,
                 [Print_pos (pos state'), Print_aux (map (\<lambda>a. a ! nat (pos state')) arrays),
                  Clear, Blit (Image (frames ! nat (pos state')) cmap) win]))"
proof (intro conjI impI)
  assume "pos state' = pos state"
  then show "on_key_press img_array arrays commands cmap win symbol modifiers state
              = (Returned, state', [])"
    using assms by (simp add: on_key_press_def)
next
  assume h: "pos state' \<noteq> pos state \<and> img_array = Sized frames
            \<and> 0 \<le> pos state' \<and> pos state' < int (length frames)
            \<and> (\<forall>a \<in> set arrays. length a = length frames)"
  then have a: "\<forall>a \<in> set arrays. pos state' < int (length a)" by simp
  show "on_key_press img_array arrays commands cmap win symbol modifiers state
              = (Returned, state'\<lparr>I := Image (frames ! nat (pos state')) cmap\<rparr>,
                 [Print_pos (pos state'), Print_aux (map (\<lambda>a. a ! nat (pos state')) arrays),
                  Clear, Blit (Image (frames ! nat (pos state')) cmap) win])"
    using on_key_press_returned[where symbol = symbol and c = c and commands = commands
        and f = f and s = state and s' = state' and frames = frames and arrays = arrays
        and cmap = cmap and win = win and modifiers = modifiers] assms h a
    by auto
qed

theorem redraw_iff_position_changed_witness:
  "chr 106 = Inr ''j'' \<and> chr 48 = Inr ''0''
   \<and> on_key_press (Sized [10, 20, 30::nat]) [[1, 2, 3::nat]] module_commands (0::nat) (512, 512)
         106 0 \<lparr>window = (512, 512), pos = 0, I = Image 10 0, len = Some 3\<rparr>
       = (Returned, \<lparr>window = (512, 512), pos = 1, I = Image 20 0, len = Some 3\<rparr>,
          [Print_pos 1, Print_aux [2], Clear, Blit (Image 20 0) (512, 512)])
   \<and> on_key_press (Sized [10, 20, 30::nat]) [[1, 2, 3::nat]] module_commands (0::nat) (512, 512)
         48 0 \<lparr>window = (512, 512), pos = 0, I = Image 10 0, len = Some 3\<rparr>
       = (Returned, \<lparr>window = (512, 512), pos = 0, I = Image 10 0, len = Some 3\<rparr>, [])"
  using redraw_iff_position_changed [where symbol = 106 and c = "''j''"
      and commands = "module_commands" and f = inc_pos
      and state = "\<lparr>window = (512, 512), pos = 0, I = Image (10::nat) (0::nat), len = Some 3\<rparr>"
      and state' = "\<lparr>window = (512, 512), pos = 1, I = Image (10::nat) (0::nat), len = Some 3\<rparr>"
      and img_array = "Sized [10, 20, 30::nat]" and frames = "[10, 20, 30::nat]"
      and arrays = "[[1, 2, 3::nat]]" and cmap = "0::nat" and win = "(512, 512)"
      and modifiers = 0]
    redraw_iff_position_changed [where symbol = 48 and c = "''0''"
      and commands = "module_commands" and f = reset_pos
      and state = "\<lparr>window = (512, 512), pos = 0, I = Image (10::nat) (0::nat), len = Some 3\<rparr>"
      and state' = "\<lparr>window = (512, 512), pos = 0, I = Image (10::nat) (0::nat), len = Some 3\<rparr>"
      and img_array = "Sized [10, 20, 30::nat]" and frames = "[10, 20, 30::nat]"
      and arrays = "[[1, 2, 3::nat]]" and cmap = "0::nat" and win = "(512, 512)"
      and modifiers = 0]
  by (simp add: chr_j chr_0 module_commands_eq inc_pos_def reset_pos_def)

text \<open>
  C3, as the source has it. A table passed as \<open>commands\<close> is the table used for
  dispatch, as it is: it replaces the module's table, and a key the caller's table lacks
  is reported as unused even when the module's table binds it. The module's table is used
  only when \<open>commands\<close> is \<open>None\<close>.
\<close>

theorem supplied_commands_replace:
  "active_commands cmds_module (Some c) = c
   \<and> active_commands cmds_module None = cmds_module
   \<and> glumpy_viewer img_array arrays (Some c) cmap shape events =
       (case initial_state img_array cmap shape of
          Inl e \<Rightarrow> Inl e
        | Inr s \<Rightarrow> Inr (mainloop (on_key_press img_array arrays c cmap shape) events s))
   \<and> glumpy_viewer img_array arrays None cmap shape events =
       (case initial_state img_array cmap shape of
          Inl e \<Rightarrow> Inl e
        | Inr s \<Rightarrow> Inr (mainloop (on_key_press img_array arrays module_commands cmap shape) events s))
   \<and> (chr symbol = Inr k \<and> c k = None \<longrightarrow>
        on_key_press img_array arrays (active_commands cmds_module (Some c)) cmap win
          symbol modifiers state
        = (Returned, state, [Print_unused k modifiers]))"
  by (simp add: active_commands_def glumpy_viewer_def on_key_press_def split: sum.splits)

theorem supplied_commands_replace_witness:
  "chr 106 = Inr ''j'' \<and> [''r'' \<mapsto> (reset_pos :: (nat, nat) image handler)] ''j'' = None
   \<and> on_key_press (Sized [10, 20, 30::nat]) ([] :: nat list list)
        (active_commands module_commands (Some [''r'' \<mapsto> reset_pos])) (0::nat) (512, 512)
        106 0 \<lparr>window = (512, 512), pos = 0, I = Image 10 0, len = Some 3\<rparr>
       = (Returned, \<lparr>window = (512, 512), pos = 0, I = Image 10 0, len = Some 3\<rparr>,
          [Print_unused ''j'' 0])"
  using supplied_commands_replace [where c = "[''r'' \<mapsto> (reset_pos :: (nat, nat) image handler)]"
      and symbol = 106 and k = "''j''" and cmds_module = module_commands
      and img_array = "Sized [10, 20, 30::nat]" and arrays = "[] :: nat list list"
      and cmap = "0::nat" and win = "(512, 512)" and modifiers = 0
      and shape = "(512, 512)" and events = "[]"
      and state = "\<lparr>window = (512, 512), pos = 0, I = Image (10::nat) (0::nat), len = Some 3\<rparr>"]
  by (simp add: chr_j active_commands_def)

text \<open>
  C3 as stated fails. With \<open>commands = {'r': reset_pos}\<close> the merge of the
  specification would dispatch \<open>j\<close> to \<open>inc_pos\<close>; the viewer reports \<open>j\<close> as unused
  and stays at position 0.
\<close>

theorem supplied_commands_counterexample:
  "active_commands module_commands (Some [''r'' \<mapsto> (reset_pos :: (nat, nat) image handler)])
     \<noteq> spec_merged_commands module_commands [''r'' \<mapsto> reset_pos]
   \<and> spec_merged_commands module_commands [''r'' \<mapsto> (reset_pos :: (nat, nat) image handler)] ''j''
       = Some inc_pos
   \<and> active_commands module_commands (Some [''r'' \<mapsto> (reset_pos :: (nat, nat) image handler)]) ''j''
       = None
   \<and> glumpy_viewer (Sized [10, 20, 30::nat]) ([] :: nat list list)
        (Some [''r'' \<mapsto> reset_pos]) (0::nat) (512, 512) [(106, 0)]
       = Inr (Running, \<lparr>window = (512, 512), pos = 0, I = Image 10 0, len = Some 3\<rparr>,
              [Print_unused ''j'' 0])"
proof -
  let ?c = "[''r'' \<mapsto> (reset_pos :: (nat, nat) image handler)]"
  have m: "spec_merged_commands module_commands ?c ''j'' = Some inc_pos"
    by (simp add: spec_merged_commands_def module_commands_j)
  have a: "active_commands module_commands (Some ?c) ''j'' = None"
    by (simp add: active_commands_def)
  have ne: "active_commands module_commands (Some ?c) \<noteq> spec_merged_commands module_commands ?c"
  proof
    assume "active_commands module_commands (Some ?c) = spec_merged_commands module_commands ?c"
    then have "active_commands module_commands (Some ?c) ''j''
                 = spec_merged_commands module_commands ?c ''j''"
      by simp
    then show False using m a by simp
  qed
  have g: "glumpy_viewer (Sized [10, 20, 30::nat]) ([] :: nat list list)
        (Some ?c) (0::nat) (512, 512) [(106, 0)]
       = Inr (Running, \<lparr>window = (512, 512), pos = 0, I = Image 10 0, len = Some 3\<rparr>,
              [Print_unused ''j'' 0])"
    by (simp add: glumpy_viewer_def initial_state_Sized active_commands_def
        on_key_press_def chr_j)
  show ?thesis using ne m a g by simp
qed

text \<open>
  C4. \<open>quit\<close> leaves through \<open>sys.exit()\<close> with the state untouched. A \<open>q\<close> key press
  ends the loop: whatever the earlier key presses were, if the loop is still running when
  \<open>q\<close> arrives it terminates with the state and the output it had at that moment, and
  the key presses after \<open>q\<close> play no part in the result.
\<close>

theorem quit_terminates:
  "quit state = (SystemExit, state)
   \<and> on_key_press img_array arrays module_commands cmap win 113 modifiers state
       = (SystemExit, state, [])
   \<and> mainloop (on_key_press img_array arrays module_commands cmap win)
        (before @ (113, modifiers) # rest) state
       = (case mainloop (on_key_press img_array arrays module_commands cmap win) before state of
            (Running, s1, out1) \<Rightarrow> (Terminated SystemExit, s1, out1)
          | r \<Rightarrow> r)"
proof -
  have q: "\<And>s. on_key_press img_array arrays module_commands cmap win 113 modifiers s
       = (SystemExit, s, [])"
    by (simp add: on_key_press_def chr_q module_commands_q quit_def)
  show ?thesis
    by (simp add: quit_def q mainloop_append split: prod.splits status.splits)
qed

text \<open>
  C5. For every argument that is not a one-character \<open>str\<close>, the registration
  \<open>command(char)(f)\<close> fails its assertion: the caller gets the exception (AssertionError
  is the exception the specification calls InvalidTriggerError), \<open>_commands\<close> is as it
  was, and a session dispatches every key as it did before the call.
\<close>

theorem invalid_trigger_rejected:
  assumes "\<forall>ch. char \<noteq> PyStr [ch]"
  shows "command char f cmds = (Raised AssertionError, cmds)
       \<and> on_key_press img_array arrays (active_commands (snd (command char f cmds)) commands)
            cmap win symbol modifiers state
           = on_key_press img_array arrays (active_commands cmds commands)
               cmap win symbol modifiers state"
proof -
  have "command char f cmds = (Raised AssertionError, cmds)"
  proof (cases char)
    case (PyStr s)
    then have "length s \<noteq> 1" using assms by (cases s) auto
    then show ?thesis using PyStr by simp
  qed simp_all
  then show ?thesis by simp
qed

theorem invalid_trigger_rejected_witness:
  "(\<forall>ch. PyStr ''jk'' \<noteq> PyStr [ch])
   \<and> command (PyStr ''jk'') reset_pos (module_commands :: (nat, nat) image commands)
       = (Raised AssertionError, module_commands)
   \<and> command (PyStr '''') reset_pos (module_commands :: (nat, nat) image commands)
       = (Raised AssertionError, module_commands)
   \<and> command (PyInt 7) reset_pos (module_commands :: (nat, nat) image commands)
       = (Raised AssertionError, module_commands)"
  using invalid_trigger_rejected [where char = "PyStr ''jk''" and f = reset_pos
      and cmds = "module_commands :: (nat, nat) image commands"]
    invalid_trigger_rejected [where char = "PyStr ''''" and f = reset_pos
      and cmds = "module_commands :: (nat, nat) image commands"]
    invalid_trigger_rejected [where char = "PyInt 7" and f = reset_pos
      and cmds = "module_commands :: (nat, nat) image commands"]
  by simp

text \<open>
  C6 fails for a key that has no character. The left arrow key arrives as the symbol
  65361; \<open>chr\<close> raises ValueError before the table is consulted, so \<open>on_key_press\<close>
  raises instead of printing the notice (\<open>on_key_press_unused\<close> is the case of a symbol
  in \<open>range(256)\<close>, where the notice is printed and nothing else happens).
\<close>

theorem special_key_raises:
  "on_key_press img_array arrays commands cmap win 65361 modifiers state
     = (Raised ValueError, state, [])"
  by (simp add: on_key_press_def chr_def)

text \<open>
  C7. Registering a handler for a character that is already registered returns without
  error and replaces the entry: after \<open>f_old\<close> and then \<open>f_new\<close> the table is what
  registering \<open>f_new\<close> alone gives. A \<open>j\<close> key press in a session on the module's table
  then runs \<open>f_new\<close> on the state and nothing of \<open>f_old\<close>: the press completes as \<open>f_new\<close>
  does, the state it leaves is the state \<open>f_new\<close> left (with \<open>I\<close> rebuilt when \<open>f_new\<close>
  moved the position), and what it prints and draws is decided by \<open>f_new\<close>'s change of
  position alone.
\<close>

theorem redefinition_clobbers:
  "command (PyStr [ch]) f_old cmds = (Returned, cmds([ch] \<mapsto> f_old))
   \<and> command (PyStr [ch]) f_new (snd (command (PyStr [ch]) f_old cmds)) = (Returned, cmds([ch] \<mapsto> f_new))
   \<and> command (PyStr [ch]) f_new (snd (command (PyStr [ch]) f_old cmds)) = command (PyStr [ch]) f_new cmds
   \<and> active_commands (snd (command (PyStr ''j'') f_new (snd (command (PyStr ''j'') f_old cmds)))) None ''j''
       = Some f_new
   \<and> on_key_press img_array arrays
        (active_commands (snd (command (PyStr ''j'') f_new (snd (command (PyStr ''j'') f_old cmds)))) None)
        cmap win 106 modifiers state
       = on_key_press img_array arrays [''j'' \<mapsto> f_new] cmap win 106 modifiers state
   \<and> on_key_press img_array arrays
        (active_commands (snd (command (PyStr ''j'') f_new (snd (command (PyStr ''j'') f_old cmds)))) None)
        cmap win 106 modifiers state
       = (case f_new state of
            (Returned, state') \<Rightarrow>
              if pos state' = pos state then (Returned, state', [])
              else
                (case getitem img_array (pos state') of
                   Inl e \<Rightarrow> (Raised e, state', [])
                 | Inr img_i \<Rightarrow>
                    (case getitems arrays (pos state') of
                       Inl e \<Rightarrow>
                         (Raised e, state'\<lparr>I := Image img_i cmap\<rparr>, [Print_pos (pos state')])
                     | Inr vs \<Rightarrow>
                         (Returned, state'\<lparr>I := Image img_i cmap\<rparr>,
                          [Print_pos (pos state'), Print_aux vs,
                           Clear, Blit (Image img_i cmap) win])))
          | (SystemExit, state') \<Rightarrow> (SystemExit, state', [])
          | (Raised e, state') \<Rightarrow> (Raised e, state', []))
   \<and> pos (fst (snd (on_key_press img_array arrays
        (active_commands (snd (command (PyStr ''j'') f_new (snd (command (PyStr ''j'') f_old cmds)))) None)
        cmap win 106 modifiers state)))
       = pos (snd (f_new state))
   \<and> len (fst (snd (on_key_press img_array arrays
        (active_commands (snd (command (PyStr ''j'') f_new (snd (command (PyStr ''j'') f_old cmds)))) None)
        cmap win 106 modifiers state)))
       = len (snd (f_new state))"
proof -
  let ?cmds2 = "snd (command (PyStr ''j'') f_new (snd (command (PyStr ''j'') f_old cmds)))"
  have t: "active_commands ?cmds2 None ''j'' = Some f_new"
    by (simp add: active_commands_def)
  have reg: "command (PyStr [ch]) f_old cmds = (Returned, cmds([ch] \<mapsto> f_old))
   \<and> command (PyStr [ch]) f_new (snd (command (PyStr [ch]) f_old cmds)) = (Returned, cmds([ch] \<mapsto> f_new))
   \<and> command (PyStr [ch]) f_new (snd (command (PyStr [ch]) f_old cmds)) = command (PyStr [ch]) f_new cmds"
    by simp
  have same: "on_key_press img_array arrays (active_commands ?cmds2 None) cmap win 106 modifiers state
       = on_key_press img_array arrays [''j'' \<mapsto> f_new] cmap win 106 modifiers state"
    by (simp add: on_key_press_def chr_j active_commands_def)
  obtain cp state' where h: "f_new state = (cp, state')" by (cases "f_new state")
  have run: "on_key_press img_array arrays (active_commands ?cmds2 None) cmap win 106 modifiers state
       = (case f_new state of
            (Returned, state') \<Rightarrow>
              if pos state' = pos state then (Returned, state', [])
              else
                (case getitem img_array (pos state') of
                   Inl e \<Rightarrow> (Raised e, state', [])
                 | Inr img_i \<Rightarrow>
                    (case getitems arrays (pos state') of
                       Inl e \<Rightarrow>
                         (Raised e, state'\<lparr>I := Image img_i cmap\<rparr>, [Print_pos (pos state')])
                     | Inr vs \<Rightarrow>
                         (Returned, state'\<lparr>I := Image img_i cmap\<rparr>,
                          [Print_pos (pos state'), Print_aux vs,
                           Clear, Blit (Image img_i cmap) win])))
          | (SystemExit, state') \<Rightarrow> (SystemExit, state', [])
          | (Raised e, state') \<Rightarrow> (Raised e, state', []))"
    using h
    by (cases cp)
       (auto simp add: on_key_press_def on_draw_def chr_j active_commands_def Let_def
          split: sum.splits)
  have ps: "pos (fst (snd (on_key_press img_array arrays (active_commands ?cmds2 None) cmap win
               106 modifiers state))) = pos (snd (f_new state))
       \<and> len (fst (snd (on_key_press img_array arrays (active_commands ?cmds2 None) cmap win
               106 modifiers state))) = len (snd (f_new state))"
    unfolding run using h
    by (cases cp) (auto split: sum.splits)
  show ?thesis using reg t same run ps by blast
qed

theorem redefinition_clobbers_witness:
  "on_key_press (Sized [10, 20, 30::nat]) [[1, 2, 3::nat]]
     (active_commands
        (snd (command (PyStr ''j'') dec_pos (snd (command (PyStr ''j'') inc_pos module_commands))))
        None)
     (0::nat) (512, 512) 106 0 \<lparr>window = (512, 512), pos = 0, I = Image 10 0, len = Some 3\<rparr>
   = (Returned, \<lparr>window = (512, 512), pos = 2, I = Image 30 0, len = Some 3\<rparr>,
      [Print_pos 2, Print_aux [3], Clear, Blit (Image 30 0) (512, 512)])"
  using redefinition_clobbers [where ch = "CHR ''j''" and f_old = inc_pos and f_new = dec_pos
      and cmds = "module_commands :: (nat, nat) image commands"
      and img_array = "Sized [10, 20, 30::nat]" and arrays = "[[1, 2, 3::nat]]"
      and cmap = "0::nat" and win = "(512, 512)" and modifiers = 0
      and state = "\<lparr>window = (512, 512), pos = 0, I = Image (10::nat) (0::nat), len = Some 3\<rparr>",
      THEN conjunct2, THEN conjunct2, THEN conjunct2, THEN conjunct2, THEN conjunct2,
      THEN conjunct1]
  by (simp add: dec_pos_def getitem_list_def)

text \<open>
  C8. For a column of length \<open>n \<ge> 2\<close> and a position \<open>0 \<le> pos < n\<close>, advancing
  (\<open>inc_pos\<close>) and then rewinding (\<open>dec_pos\<close>) returns, and leaves the state, hence the
  position, exactly as it was; so does rewinding and then advancing.
\<close>

theorem inc_dec_inverse:
  assumes "2 \<le> n" and "len s = Some n" and "0 \<le> pos s" and "pos s < n"
  shows "inc_pos s = (Returned, s\<lparr>pos := (pos s + 1) mod n\<rparr>)
       \<and> dec_pos (snd (inc_pos s)) = (Returned, s)
       \<and> dec_pos s = (Returned, s\<lparr>pos := (pos s - 1) mod n\<rparr>)
       \<and> inc_pos (snd (dec_pos s)) = (Returned, s)"
  using assms by (simp add: inc_pos_Some dec_pos_Some inc_dec_mod dec_inc_mod)

theorem inc_dec_inverse_witness:
  "dec_pos (snd (inc_pos \<lparr>window = (512, 512), pos = 2, I = Image (7::nat) (0::nat), len = Some 3\<rparr>))
     = (Returned, \<lparr>window = (512, 512), pos = 2, I = Image 7 0, len = Some 3\<rparr>)
   \<and> inc_pos (snd (dec_pos \<lparr>window = (512, 512), pos = 0, I = Image (7::nat) (0::nat), len = Some 3\<rparr>))
     = (Returned, \<lparr>window = (512, 512), pos = 0, I = Image 7 0, len = Some 3\<rparr>)
   \<and> snd (inc_pos \<lparr>window = (512, 512), pos = 2, I = Image (7::nat) (0::nat), len = Some 3\<rparr>)
     = \<lparr>window = (512, 512), pos = 0, I = Image 7 0, len = Some 3\<rparr>
   \<and> snd (dec_pos \<lparr>window = (512, 512), pos = 0, I = Image (7::nat) (0::nat), len = Some 3\<rparr>)
     = \<lparr>window = (512, 512), pos = 2, I = Image 7 0, len = Some 3\<rparr>"
  using inc_dec_inverse [of 3 "\<lparr>window = (512, 512), pos = 2, I = Image (7::nat) (0::nat), len = Some 3\<rparr>"]
    inc_dec_inverse [of 3 "\<lparr>window = (512, 512), pos = 0, I = Image (7::nat) (0::nat), len = Some 3\<rparr>"]
  by simp

text \<open>
  C9. With \<open>len = 1\<close> (and so \<open>pos = 0\<close>), \<open>inc_pos\<close> and \<open>dec_pos\<close> return the state
  unchanged, and any run of \<open>j\<close> and \<open>k\<close> key presses leaves the loop running with the
  same state and no output at all: no image is rebuilt and nothing is drawn. So a session
  on a column of one frame answers every run of \<open>j\<close> and \<open>k\<close> with its initial state
  and no output.
\<close>

theorem single_frame_no_redraw:
  assumes "len s = Some 1" and "0 \<le> pos s" and "pos s < 1"
    and "\<forall>e \<in> set events. fst e = 106 \<or> fst e = 107"
  shows "inc_pos s = (Returned, s) \<and> dec_pos s = (Returned, s)
       \<and> mainloop (on_key_press img_array arrays module_commands cmap win) events s
           = (Running, s, [])
       \<and> glumpy_viewer (Sized [frame]) arrays None cmap shape events
           = Inr (Running, \<lparr>window = shape, pos = 0, I = Image frame cmap, len = Some 1\<rparr>, [])"
proof -
  have p: "pos s = 0" using assms(2,3) by simp
  have i: "inc_pos s = (Returned, s)" using assms(1) p by (simp add: inc_pos_def)
  have d: "dec_pos s = (Returned, s)" using assms(1) p by (simp add: dec_pos_def)
  have m: "mainloop (on_key_press img_array arrays module_commands cmap win) events s
           = (Running, s, [])"
    using single_frame_mainloop[OF assms(1) p assms(4)] .
  have g: "glumpy_viewer (Sized [frame]) arrays None cmap shape events
           = Inr (Running, \<lparr>window = shape, pos = 0, I = Image frame cmap, len = Some 1\<rparr>, [])"
    using single_frame_mainloop[where
        s = "\<lparr>window = shape, pos = 0, I = Image frame cmap, len = Some 1\<rparr>"
        and events = events and img_array = "Sized [frame]" and arrays = arrays
        and cmap = cmap and win = shape] assms(4)
    by (simp add: glumpy_viewer_def initial_state_Sized active_commands_def)
  show ?thesis using i d m g by simp
qed

theorem single_frame_no_redraw_witness:
  "inc_pos \<lparr>window = (512, 512), pos = 0, I = Image (10::nat) (0::nat), len = Some 1\<rparr>
     = (Returned, \<lparr>window = (512, 512), pos = 0, I = Image 10 0, len = Some 1\<rparr>)
   \<and> dec_pos \<lparr>window = (512, 512), pos = 0, I = Image (10::nat) (0::nat), len = Some 1\<rparr>
     = (Returned, \<lparr>window = (512, 512), pos = 0, I = Image 10 0, len = Some 1\<rparr>)
   \<and> mainloop (on_key_press (Sized [10::nat]) [[1::nat]] module_commands (0::nat) (512, 512))
        [(106, 0), (107, 0), (107, 0), (106, 0)]
        \<lparr>window = (512, 512), pos = 0, I = Image 10 0, len = Some 1\<rparr>
     = (Running, \<lparr>window = (512, 512), pos = 0, I = Image 10 0, len = Some 1\<rparr>, [])
   \<and> glumpy_viewer (Sized [10::nat]) [[1::nat]] None (0::nat) (512, 512)
        [(106, 0), (107, 0), (107, 0), (106, 0)]
     = Inr (Running, \<lparr>window = (512, 512), pos = 0, I = Image 10 0, len = Some 1\<rparr>, [])"
  using single_frame_no_redraw [where
      s = "\<lparr>window = (512, 512), pos = 0, I = Image (10::nat) (0::nat), len = Some 1\<rparr>"
      and events = "[(106, 0), (107, 0), (107, 0), (106, 0)]"
      and img_array = "Sized [10::nat]" and arrays = "[[1::nat]]" and cmap = "0::nat"
      and win = "(512, 512)" and frame = 10 and shape = "(512, 512)"]
  by simp

text \<open>
  C10. For an image column without a length, the state is still built (when
  \<open>img_array[0]\<close> exists), with \<open>len = None\<close>; in any state with \<open>len = None\<close> a \<open>j\<close> or
  \<open>k\<close> key press raises TypeError and leaves the state as it was, and a session whose
  first key press is \<open>j\<close> or \<open>k\<close> ends with that TypeError.
\<close>

theorem lengthless_source:
  "initial_state (Unsized g) cmap shape =
     (case g 0 of
        None \<Rightarrow> Inl IndexError
      | Some first_img \<Rightarrow> Inr \<lparr>window = shape, pos = 0, I = Image first_img cmap, len = None\<rparr>)
   \<and> (len state = None \<and> (symbol = 106 \<or> symbol = 107) \<longrightarrow>
        on_key_press img_array arrays module_commands cmap win symbol modifiers state
          = (Raised TypeError, state, []))
   \<and> (g 0 = Some first_img \<and> (symbol = 106 \<or> symbol = 107) \<longrightarrow>
        glumpy_viewer (Unsized g) arrays None cmap shape ((symbol, modifiers) # rest)
          = Inr (Terminated (Raised TypeError),
                 \<lparr>window = shape, pos = 0, I = Image first_img cmap, len = None\<rparr>, []))"
proof -
  have i: "initial_state (Unsized g) cmap shape =
     (case g 0 of
        None \<Rightarrow> Inl IndexError
      | Some first_img \<Rightarrow> Inr \<lparr>window = shape, pos = 0, I = Image first_img cmap, len = None\<rparr>)"
    by (simp add: initial_state_def split: option.splits)
  have k: "on_key_press ia arrays module_commands cmap w key modifiers s
          = (Raised TypeError, s, [])"
    if "len s = None" and "key = 106 \<or> key = 107" for s ia w key
    using that
    by (auto simp add: on_key_press_def chr_j chr_k module_commands_j module_commands_k
        inc_pos_def dec_pos_def)
  have r: "glumpy_viewer (Unsized g) arrays None cmap shape ((symbol, modifiers) # rest)
          = Inr (Terminated (Raised TypeError),
                 \<lparr>window = shape, pos = 0, I = Image first_img cmap, len = None\<rparr>, [])"
    if "g 0 = Some first_img" and "symbol = 106 \<or> symbol = 107"
    using that i k[of "\<lparr>window = shape, pos = 0, I = Image first_img cmap, len = None\<rparr>" symbol]
    by (simp add: glumpy_viewer_def active_commands_def)
  show ?thesis
    using i k[of state symbol] r by blast
qed

theorem lengthless_source_witness:
  "(\<lambda>i::int. if i = 0 then Some (10::nat) else None) 0 = Some 10
   \<and> initial_state (Unsized (\<lambda>i. if i = 0 then Some (10::nat) else None)) (0::nat) (512, 512)
       = Inr \<lparr>window = (512, 512), pos = 0, I = Image 10 0, len = None\<rparr>
   \<and> glumpy_viewer (Unsized (\<lambda>i. if i = 0 then Some (10::nat) else None)) ([] :: nat list list)
        None (0::nat) (512, 512) [(106, 0), (107, 0)]
       = Inr (Terminated (Raised TypeError),
              \<lparr>window = (512, 512), pos = 0, I = Image 10 0, len = None\<rparr>, [])
   \<and> on_key_press (Unsized (\<lambda>i. if i = 0 then Some (10::nat) else None)) ([] :: nat list list)
        module_commands (0::nat) (512, 512) 107 0
        \<lparr>window = (512, 512), pos = 0, I = Image 10 0, len = None\<rparr>
       = (Raised TypeError, \<lparr>window = (512, 512), pos = 0, I = Image 10 0, len = None\<rparr>, [])"
  using lengthless_source [where g = "\<lambda>i. if i = 0 then Some (10::nat) else None"
      and cmap = "0::nat" and shape = "(512, 512)" and first_img = 10 and symbol = 106
      and modifiers = 0 and rest = "[(107, 0)]" and arrays = "[] :: nat list list"
      and state = "\<lparr>window = (512, 512), pos = 0, I = Image (10::nat) (0::nat), len = None\<rparr>"
      and img_array = "Unsized (\<lambda>i. if i = 0 then Some (10::nat) else None)"
      and win = "(512, 512)"]
    lengthless_source [where g = "\<lambda>i. if i = 0 then Some (10::nat) else None"
      and cmap = "0::nat" and shape = "(512, 512)" and first_img = 10 and symbol = 107
      and modifiers = 0 and rest = "[]" and arrays = "[] :: nat list list"
      and state = "\<lparr>window = (512, 512), pos = 0, I = Image (10::nat) (0::nat), len = None\<rparr>"
      and img_array = "Unsized (\<lambda>i. if i = 0 then Some (10::nat) else None)"
      and win = "(512, 512)"]
  by simp

end
